theory Spec2Isabelle
  imports Main
begin

section \<open>The wallet transaction list view of flexprice-front\<close>

text \<open>
  The development embeds \<^verbatim>\<open>src/pages/customer/payments/WalletTransactionList.tsx\<close>.
  The component is a function of what its hooks return in one render
  (\<^verbatim>\<open>usePagination\<close>, the users query, \<^verbatim>\<open>useFilterSorting\<close>,
  \<^verbatim>\<open>useQueryWithEmptyState\<close>); it produces the element it renders, the query
  descriptions it hands to \<^verbatim>\<open>useQueryWithEmptyState\<close> and one effect. The hooks
  themselves, the API client and the enum and type declarations are imported by
  the file and are not part of the sources: their results are inputs of the
  model, and where a hook's own behaviour is needed it is written from the
  specification and marked so.
\<close>

subsection \<open>Types of \<^verbatim>\<open>@/types/common/QueryBuilder\<close> used by the view\<close>

datatype SortDirection = ASC | DESC

datatype DataType = STRING | NUMBER | DATE | BOOLEAN | ARRAY

datatype FilterFieldType = TEXT | SELECT | MULTI_SELECT | DATEPICKER | NUMBER_INPUT

datatype FilterOperator =
    EQUALS | NOT_EQUALS | CONTAINS | IS_ANY_OF | IS_NOT_ANY_OF | BEFORE | AFTER

record SelectOption =
  opt_value :: string
  opt_label :: string

record FilterField =
  ff_field :: string
  ff_label :: string
  ff_fieldType :: FilterFieldType
  ff_operators :: "FilterOperator list"
  ff_dataType :: DataType
  ff_options :: "SelectOption list option"

text \<open>
  The value of a criterion: a scalar, an ISO date string or a range of two, or
  a sequence; \<^verbatim>\<open>undefined\<close> and \<^verbatim>\<open>null\<close> are values of their own.
\<close>

datatype FilterValue =
    Undefined
  | Null
  | StringValue string
  | NumberValue int
  | BooleanValue bool
  | RangeValue string string
  | ArrayValue "string list"

record FilterCriterion =
  fc_field :: string
  fc_operator :: FilterOperator
  fc_value :: FilterValue

text \<open>A sort entry; a property that is missing is \<open>None\<close>.\<close>

record SortOption =
  so_field :: "string option"
  so_label :: string
  so_direction :: "SortDirection option"

subsection \<open>What the hooks hand to the component in one render\<close>

record User =
  user_id :: string
  user_email :: "string option"
  user_name :: "string option"

text \<open>The users query of lines 32-40: \<^verbatim>\<open>data\<close>, \<^verbatim>\<open>isLoading\<close>, \<^verbatim>\<open>isError\<close>.\<close>

record UsersQuery =
  users :: "User list option"
  isUsersLoading :: bool
  isUsersError :: bool

text \<open>\<^verbatim>\<open>const { limit, offset, page, reset } = usePagination()\<close> (line 29).\<close>

record PaginationResult =
  limit :: int
  offset :: int
  page :: int

text \<open>The result of \<^verbatim>\<open>useFilterSorting\<close> (line 83); the two setters are callbacks.\<close>

record FilterSorting =
  filters :: "FilterCriterion list"
  sorts :: "SortOption list"
  sanitizedFilters :: "FilterCriterion list"
  sanitizedSorts :: "SortOption list"

text \<open>A page of results: \<^verbatim>\<open>{ items, pagination: { total } }\<close>.\<close>

record 'a QueryResult =
  items :: "'a list"
  total :: int

text \<open>The result of \<^verbatim>\<open>useQueryWithEmptyState\<close> (lines 109-114).\<close>

record 'a EmptyStateQuery =
  isLoading :: bool
  isError :: bool
  data :: "'a QueryResult option"
  probeData :: "'a QueryResult option"

subsection \<open>Requests and query keys\<close>

text \<open>The argument of \<^verbatim>\<open>WalletApi.getAllWalletTransactionsByFilter\<close>.\<close>

record WalletTransactionsRequest =
  req_limit :: int
  req_offset :: int
  req_filters :: "FilterCriterion list"
  req_sort :: "SortOption list"
  req_expand :: "string option"

text \<open>
  A query key of lines 116 and 120. \<^verbatim>\<open>JSON.stringify\<close> makes the key compare
  the criteria by content; the model keeps the criteria themselves.
\<close>

record QueryKey =
  qk_name :: string
  qk_probe :: bool
  qk_page :: int
  qk_filters :: "FilterCriterion list"
  qk_sorts :: "SortOption list"

subsection \<open>The component\<close>

definition sortingOptions :: "SortOption list" where
  "sortingOptions =
     [\<lparr>so_field = Some ''created_at'', so_label = ''Created At'', so_direction = Some DESC\<rparr>]"

text \<open>
  JavaScript's \<^verbatim>\<open>a || b\<close> on strings that may be missing: the first operand
  unless it is missing or empty.
\<close>

definition or_else :: "string option \<Rightarrow> string \<Rightarrow> string" where
  "or_else a b = (case a of None \<Rightarrow> b | Some s \<Rightarrow> if s = [] then b else s)"

definition userOptions :: "UsersQuery \<Rightarrow> SelectOption list" where
  "userOptions uq =
     (case users uq of
        None \<Rightarrow> []
      | Some us \<Rightarrow>
          map (\<lambda>u. \<lparr>opt_value = user_id u,
                     opt_label = or_else (user_email u) (or_else (user_name u) (user_id u))\<rparr>) us)"

text \<open>
  \<open>date_operators\<close> stands for \<^verbatim>\<open>DEFAULT_OPERATORS_PER_DATA_TYPE[DataType.DATE]\<close>,
  a table that is imported and not part of the sources.
\<close>

definition created_at_field :: "FilterOperator list \<Rightarrow> FilterField" where
  "created_at_field date_operators =
     \<lparr>ff_field = ''created_at'', ff_label = ''Created At'', ff_fieldType = DATEPICKER,
      ff_operators = date_operators, ff_dataType = DATE, ff_options = None\<rparr>"

definition created_by_field :: "SelectOption list \<Rightarrow> FilterField" where
  "created_by_field opts =
     \<lparr>ff_field = ''created_by'', ff_label = ''Created By'', ff_fieldType = MULTI_SELECT,
      ff_operators = [IS_ANY_OF, IS_NOT_ANY_OF], ff_dataType = ARRAY, ff_options = Some opts\<rparr>"

definition filterOptions :: "FilterOperator list \<Rightarrow> UsersQuery \<Rightarrow> FilterField list" where
  "filterOptions date_operators uq =
     (if isUsersError uq \<or> users uq = None \<or> users uq = Some []
      then [created_at_field date_operators]
      else [created_by_field (userOptions uq), created_at_field date_operators])"

text \<open>
  \<^verbatim>\<open>fetchWalletTransactions\<close> (lines 95-103) and the probe's \<^verbatim>\<open>queryFn\<close>
  (lines 121-128) call the API client, which is the parameter \<open>api\<close>. Both are
  closures of the component: the values of the render are their arguments.
\<close>

definition fetchWalletTransactions ::
  "(WalletTransactionsRequest \<Rightarrow> 'r) \<Rightarrow> PaginationResult \<Rightarrow> FilterSorting \<Rightarrow> 'r" where
  "fetchWalletTransactions api pg fs =
     api \<lparr>req_limit = limit pg, req_offset = offset pg,
          req_filters = sanitizedFilters fs, req_sort = sanitizedSorts fs,
          req_expand = Some ''customer,created_by_user''\<rparr>"

definition probe_queryFn ::
  "(WalletTransactionsRequest \<Rightarrow> 'r) \<Rightarrow> PaginationResult \<Rightarrow> FilterSorting \<Rightarrow> 'r" where
  "probe_queryFn api pg fs =
     api \<lparr>req_limit = 1, req_offset = 0, req_filters = [], req_sort = [],
          req_expand = None\<rparr>"

definition main_queryKey :: "PaginationResult \<Rightarrow> FilterSorting \<Rightarrow> QueryKey" where
  "main_queryKey pg fs =
     \<lparr>qk_name = ''fetchAllWalletTransactions'', qk_probe = False, qk_page = page pg,
      qk_filters = sanitizedFilters fs, qk_sorts = sanitizedSorts fs\<rparr>"

definition probe_queryKey :: "PaginationResult \<Rightarrow> FilterSorting \<Rightarrow> QueryKey" where
  "probe_queryKey pg fs =
     \<lparr>qk_name = ''fetchAllWalletTransactions'', qk_probe = True, qk_page = page pg,
      qk_filters = sanitizedFilters fs, qk_sorts = sanitizedSorts fs\<rparr>"

text \<open>
  \<^verbatim>\<open>x?.items.length === 0\<close>: false when \<open>x\<close> is undefined, since
  \<^verbatim>\<open>undefined === 0\<close> is false.
\<close>

definition has_no_items :: "'a QueryResult option \<Rightarrow> bool" where
  "has_no_items x = (case x of None \<Rightarrow> False | Some r \<Rightarrow> items r = [])"

definition shouldProbe :: "'a QueryResult option \<Rightarrow> bool" where
  "shouldProbe mainData = has_no_items mainData"

definition showEmptyPage :: "'a EmptyStateQuery \<Rightarrow> bool" where
  "showEmptyPage q = (\<not> isLoading q \<and> has_no_items (probeData q) \<and> has_no_items (data q))"

text \<open>
  What the component returns (lines 139-193): the loader, the error card, the
  "No Wallet Transactions" card, or the query builder with the table and the
  pagination bar.
\<close>

record 'a ListViewProps =
  lv_filterOptions :: "FilterField list"
  lv_filters :: "FilterCriterion list"
  lv_sortOptions :: "SortOption list"
  lv_selectedSorts :: "SortOption list"
  lv_data :: "'a list"
  lv_users :: "User list"
  lv_totalItems :: int

datatype 'a Rendered = Loader | ErrorCard | EmptyPage | ListView "'a ListViewProps"

definition WalletTransactionList ::
  "FilterOperator list \<Rightarrow> UsersQuery \<Rightarrow> FilterSorting \<Rightarrow> 'a EmptyStateQuery \<Rightarrow> 'a Rendered" where
  "WalletTransactionList date_operators uq fs q =
     (if isLoading q \<or> isUsersLoading uq then Loader
      else if isError q then ErrorCard
      else if showEmptyPage q then EmptyPage
      else ListView
        \<lparr>lv_filterOptions = filterOptions date_operators uq,
         lv_filters = filters fs,
         lv_sortOptions = sortingOptions,
         lv_selectedSorts = sorts fs,
         lv_data = (case data q of None \<Rightarrow> [] | Some r \<Rightarrow> items r),
         lv_users = (case users uq of None \<Rightarrow> [] | Some us \<Rightarrow> us),
         lv_totalItems = (case data q of None \<Rightarrow> 0 | Some r \<Rightarrow> total r)\<rparr>)"

text \<open>
  The states of the empty-state resolver. The view keeps no state value: the
  branch it renders is the state it has resolved, and a rendered list is
  \<open>FilteredEmpty\<close> or \<open>Populated\<close> by whether its table has rows.
\<close>

datatype EmptyState = Loading | Error | TrueEmpty | FilteredEmpty | Populated

fun resolved_state :: "'a Rendered \<Rightarrow> EmptyState" where
  "resolved_state Loader = Loading"
| "resolved_state ErrorCard = Error"
| "resolved_state EmptyPage = TrueEmpty"
| "resolved_state (ListView props) = (if lv_data props = [] then FilteredEmpty else Populated)"

subsection \<open>What the view hands to its hooks\<close>

text \<open>The options of the call \<^verbatim>\<open>useFilterSorting({...})\<close> (lines 83-93).\<close>

record FilterSortingOptions =
  initialFilters :: "FilterCriterion list"
  initialSorts :: "SortOption list"
  debounceTime :: "nat option"

definition filterSortingOptions :: FilterSortingOptions where
  "filterSortingOptions =
     \<lparr>initialFilters = [],
      initialSorts =
        [\<lparr>so_field = Some ''created_at'', so_label = ''Created At'', so_direction = Some DESC\<rparr>],
      debounceTime = Some 500\<rparr>"

section \<open>The hooks, as the specification describes them\<close>

subsection \<open>Pagination\<close>

text \<open>
  Modelled from the spec: the hook \<^verbatim>\<open>usePagination\<close>, imported from
  \<^verbatim>\<open>@/hooks/usePagination\<close> and not part of the sources. Section 4.4: the state is
  \<^verbatim>\<open>{page, limit}\<close>, \<^verbatim>\<open>offset()\<close> returns \<^verbatim>\<open>(page-1) * limit\<close>, and
  \<^verbatim>\<open>reset()\<close> sets the page to 1 and leaves the limit unchanged.
\<close>

record PaginationState =
  ps_page :: int
  ps_limit :: int

definition usePagination :: "PaginationState \<Rightarrow> PaginationResult" where
  "usePagination st =
     \<lparr>limit = ps_limit st, offset = (ps_page st - 1) * ps_limit st, page = ps_page st\<rparr>"

definition reset :: "PaginationState \<Rightarrow> PaginationState" where
  "reset st = st\<lparr>ps_page := 1\<rparr>"

subsection \<open>The probe's gate\<close>





subsection \<open>The debounced state controller\<close>

text \<open>
  Modelled from the spec: the controller inside \<^verbatim>\<open>useFilterSorting\<close> (imported
  from \<^verbatim>\<open>@/hooks/useFilterSorting\<close>, not part of the sources). Section 4.3: a
  slot holds a live and a committed value; every \<^verbatim>\<open>setFilters\<close> or
  \<^verbatim>\<open>setSorts\<close> call updates the live value at once, cancels any pending commit
  timer and starts a new one for \<^verbatim>\<open>debounceTime\<close> milliseconds (500 when the
  caller gives none); a timer that fires recomputes the committed value with
  the sanitizer and publishes it; on first mount the committed value is
  published immediately. Time is a clock in milliseconds; \<open>db_timers\<close> holds
  the instants at which the pending timers fire, \<open>db_published\<close> every
  committed value published so far, oldest first. The sanitizer is a parameter.
\<close>

record ('a, 'b) Debounced =
  db_live :: 'a
  db_committed :: 'b
  db_timers :: "nat list"
  db_now :: nat
  db_published :: "'b list"

definition debounce_of :: "nat option \<Rightarrow> nat" where
  "debounce_of opt = (case opt of None \<Rightarrow> 500 | Some d \<Rightarrow> d)"

definition mount :: "('a \<Rightarrow> 'b) \<Rightarrow> 'a \<Rightarrow> ('a, 'b) Debounced" where
  "mount sanitize initial =
     \<lparr>db_live = initial, db_committed = sanitize initial, db_timers = [], db_now = 0,
      db_published = [sanitize initial]\<rparr>"

definition cancel_timers :: "('a, 'b) Debounced \<Rightarrow> ('a, 'b) Debounced" where
  "cancel_timers c = c\<lparr>db_timers := []\<rparr>"

definition start_timer :: "nat \<Rightarrow> ('a, 'b) Debounced \<Rightarrow> ('a, 'b) Debounced" where
  "start_timer ms c = c\<lparr>db_timers := db_timers c @ [db_now c + ms]\<rparr>"

definition setFilters :: "nat \<Rightarrow> 'a \<Rightarrow> ('a, 'b) Debounced \<Rightarrow> ('a, 'b) Debounced" where
  "setFilters ms v c = start_timer ms (cancel_timers (c\<lparr>db_live := v\<rparr>))"

definition timer_fire :: "('a \<Rightarrow> 'b) \<Rightarrow> ('a, 'b) Debounced \<Rightarrow> ('a, 'b) Debounced" where
  "timer_fire sanitize c =
     c\<lparr>db_committed := sanitize (db_live c),
       db_published := db_published c @ [sanitize (db_live c)]\<rparr>"

text \<open>\<open>d\<close> milliseconds pass: the timers that are due fire, the others stay pending.\<close>

definition elapse :: "('a \<Rightarrow> 'b) \<Rightarrow> nat \<Rightarrow> ('a, 'b) Debounced \<Rightarrow> ('a, 'b) Debounced" where
  "elapse sanitize d c =
     (let now' = db_now c + d;
          due = filter (\<lambda>t. t \<le> now') (db_timers c);
          c' = fold (\<lambda>t. timer_fire sanitize) due c
      in c'\<lparr>db_timers := filter (\<lambda>t. \<not> t \<le> now') (db_timers c), db_now := now'\<rparr>)"

datatype 'a Edit = SetFilters 'a | Elapse nat

fun edit_step ::
  "('a \<Rightarrow> 'b) \<Rightarrow> nat \<Rightarrow> ('a, 'b) Debounced \<Rightarrow> 'a Edit \<Rightarrow> ('a, 'b) Debounced" where
  "edit_step sanitize ms c (SetFilters v) = setFilters ms v c"
| "edit_step sanitize ms c (Elapse d) = elapse sanitize d c"

definition run_edits ::
  "('a \<Rightarrow> 'b) \<Rightarrow> nat \<Rightarrow> 'a Edit list \<Rightarrow> ('a, 'b) Debounced \<Rightarrow> ('a, 'b) Debounced" where
  "run_edits sanitize ms es c = foldl (edit_step sanitize ms) c es"

text \<open>
  A burst of calls: the first call sets \<open>v\<close>; each later call sets \<open>w\<close>,
  \<open>d\<close> milliseconds after the call before it.
\<close>

fun burst :: "'a \<Rightarrow> (nat \<times> 'a) list \<Rightarrow> 'a Edit list" where
  "burst v [] = [SetFilters v]"
| "burst v ((d, w) # rest) = SetFilters v # Elapse d # burst w rest"

section \<open>Renders and the reset effect\<close>

text \<open>
  Lines 105-107 register \<^verbatim>\<open>useEffect(() => { reset(); }, [sanitizedFilters,
  sanitizedSorts])\<close>. A render evaluates the component's body on the values its
  hooks hold at that moment: the main query of line 114 gets the key and the
  request function built from this render's \<^verbatim>\<open>page\<close>, \<^verbatim>\<open>offset\<close> and
  committed criteria. React runs an effect after the render that registers it,
  on mount and whenever a dependency differs from the one of the previous
  render; what the effect changes is seen by the next render. \<open>vs_effect_deps\<close>
  holds the dependencies of the last run of the effect (\<open>None\<close> before the
  mount). React compares dependencies by identity: a committed value that
  differs is always a different object, so a change of value is a change for
  React as well.
\<close>

record ViewState =
  vs_pagination :: PaginationState
  vs_criteria :: FilterSorting
  vs_effect_deps :: "(FilterCriterion list \<times> SortOption list) option"

text \<open>
  \<open>MainQuery k r\<close>: a render hands \<^verbatim>\<open>useQueryWithEmptyState\<close> a main query with
  key \<open>k\<close> whose query function requests \<open>r\<close>; a key that has not been
  fetched is fetched with that function. \<open>ResetCalled\<close>: the effect calls
  \<^verbatim>\<open>reset()\<close>.
\<close>

datatype ViewEvent = MainQuery QueryKey WalletTransactionsRequest | ResetCalled

definition render_view :: "ViewState \<Rightarrow> ViewState \<times> ViewEvent list" where
  "render_view v =
     (let pg = usePagination (vs_pagination v);
          fs = vs_criteria v;
          q = MainQuery (main_queryKey pg fs) (fetchWalletTransactions (\<lambda>r. r) pg fs);
          deps = (sanitizedFilters fs, sanitizedSorts fs)
      in if vs_effect_deps v = Some deps then (v, [q])
         else (v\<lparr>vs_pagination := reset (vs_pagination v), vs_effect_deps := Some deps\<rparr>,
               [q, ResetCalled]))"

text \<open>
  A render whose effect changed the pagination is followed by another render;
  that one finds the dependencies unchanged, so no third render follows.
\<close>

definition render_until_stable :: "ViewState \<Rightarrow> ViewState \<times> ViewEvent list" where
  "render_until_stable v =
     (let (v1, t1) = render_view v
      in if vs_pagination v1 = vs_pagination v then (v1, t1)
         else (let (v2, t2) = render_view v1 in (v2, t1 @ t2)))"

text \<open>\<^verbatim>\<open>useFilterSorting\<close> publishes new committed criteria: the view renders again.\<close>

definition commit_criteria ::
  "FilterCriterion list \<Rightarrow> SortOption list \<Rightarrow> ViewState \<Rightarrow> ViewState \<times> ViewEvent list" where
  "commit_criteria f s v =
     render_until_stable
       (v\<lparr>vs_criteria := (vs_criteria v)\<lparr>sanitizedFilters := f, sanitizedSorts := s\<rparr>\<rparr>)"

text \<open>The events of a trace after the first call of \<^verbatim>\<open>reset()\<close>, and the number of calls.\<close>

definition after_reset :: "ViewEvent list \<Rightarrow> ViewEvent list" where
  "after_reset t = tl (dropWhile (\<lambda>e. e \<noteq> ResetCalled) t)"

definition reset_count :: "ViewEvent list \<Rightarrow> nat" where
  "reset_count t = length (filter (\<lambda>e. e = ResetCalled) t)"

section \<open>Properties of the view\<close>

lemma has_no_items_Some: "has_no_items (Some r) = (items r = [])"
  by (simp add: has_no_items_def)

lemma has_no_items_None: "has_no_items None = False"
  by (simp add: has_no_items_def)

text \<open>The error card comes before the empty page and the list (line 143).\<close>

lemma error_card_when_isError:
  "\<not> isLoading q \<Longrightarrow> \<not> isUsersLoading uq \<Longrightarrow> isError q \<Longrightarrow>
   WalletTransactionList date_operators uq fs q = ErrorCard"
  by (simp add: WalletTransactionList_def)

subsection \<open>Empty-state resolution\<close>

text \<open>
  The hook reports an error while both results hold zero items and nothing is
  loading: \<^verbatim>\<open>showEmptyPage\<close> is true, yet line 143 returns the error card
  before line 167 is reached. While the users query is still loading, line 139
  returns the loader in the same way.
\<close>

theorem empty_page_counterexample:
  "WalletTransactionList [BEFORE, AFTER]
      \<lparr>users = None, isUsersLoading = False, isUsersError = False\<rparr>
      \<lparr>filters = [], sorts = [], sanitizedFilters = [], sanitizedSorts = []\<rparr>
      \<lparr>isLoading = False, isError = True,
       data = Some \<lparr>items = ([] :: string list), total = 0\<rparr>,
       probeData = Some \<lparr>items = [], total = 0\<rparr>\<rparr> = ErrorCard
   \<and> showEmptyPage
      \<lparr>isLoading = False, isError = True,
       data = Some \<lparr>items = ([] :: string list), total = 0\<rparr>,
       probeData = Some \<lparr>items = [], total = 0\<rparr>\<rparr>
   \<and> WalletTransactionList [BEFORE, AFTER]
      \<lparr>users = None, isUsersLoading = True, isUsersError = False\<rparr>
      \<lparr>filters = [], sorts = [], sanitizedFilters = [], sanitizedSorts = []\<rparr>
      \<lparr>isLoading = False, isError = False,
       data = Some \<lparr>items = ([] :: string list), total = 0\<rparr>,
       probeData = Some \<lparr>items = [], total = 0\<rparr>\<rparr> = Loader"
  by (simp add: WalletTransactionList_def showEmptyPage_def has_no_items_def)

text \<open>
  C1, as the view has it. When neither the list queries nor the users query is
  loading, the hook reports no error, the main query has settled with zero
  items and the probe has settled, the state the view resolves is
  \<open>TrueEmpty\<close> when the probe's items are empty and \<open>FilteredEmpty\<close> when
  they are not. The "No Wallet Transactions" page is rendered exactly when
  neither the list queries nor the users query is loading (line 139), the hook
  reports no error (line 143) and both the main items and the probe items are
  empty; it is the only branch that resolves \<open>TrueEmpty\<close>.
\<close>

theorem empty_state_resolution:
  "(\<not> isLoading q \<and> \<not> isUsersLoading uq \<and> \<not> isError q \<and> data q = Some m \<and> items m = []
      \<and> probeData q = Some p \<longrightarrow>
      resolved_state (WalletTransactionList date_operators uq fs q)
        = (if items p = [] then TrueEmpty else FilteredEmpty))
   \<and> (WalletTransactionList date_operators uq fs q = EmptyPage \<longleftrightarrow>
        \<not> isLoading q \<and> \<not> isUsersLoading uq \<and> \<not> isError q
        \<and> has_no_items (data q) \<and> has_no_items (probeData q))
   \<and> (resolved_state (WalletTransactionList date_operators uq fs q) = TrueEmpty \<longleftrightarrow>
        WalletTransactionList date_operators uq fs q = EmptyPage)"
  by (auto simp: WalletTransactionList_def showEmptyPage_def has_no_items_def
      split: option.splits)

text \<open>Scenarios A and B of the specification, as the view renders them.\<close>

theorem empty_state_resolution_witness:
  "resolved_state (WalletTransactionList [BEFORE, AFTER]
      \<lparr>users = None, isUsersLoading = False, isUsersError = False\<rparr>
      \<lparr>filters = [], sorts = [], sanitizedFilters = [], sanitizedSorts = []\<rparr>
      \<lparr>isLoading = False, isError = False,
       data = Some \<lparr>items = ([] :: string list), total = 0\<rparr>,
       probeData = Some \<lparr>items = [], total = 0\<rparr>\<rparr>) = TrueEmpty
   \<and> resolved_state (WalletTransactionList [BEFORE, AFTER]
      \<lparr>users = None, isUsersLoading = False, isUsersError = False\<rparr>
      \<lparr>filters = [], sorts = [], sanitizedFilters = [], sanitizedSorts = []\<rparr>
      \<lparr>isLoading = False, isError = False,
       data = Some \<lparr>items = [], total = 0\<rparr>,
       probeData = Some \<lparr>items = [''x''], total = 1\<rparr>\<rparr>) = FilteredEmpty"
  using
    empty_state_resolution [where
      q = "\<lparr>isLoading = False, isError = False,
        data = Some \<lparr>items = ([] :: string list), total = 0\<rparr>,
        probeData = Some \<lparr>items = [], total = 0\<rparr>\<rparr>"
      and uq = "\<lparr>users = None, isUsersLoading = False, isUsersError = False\<rparr>"
      and m = "\<lparr>items = [], total = 0\<rparr>" and p = "\<lparr>items = [], total = 0\<rparr>"
      and date_operators = "[BEFORE, AFTER]"
      and fs = "\<lparr>filters = [], sorts = [], sanitizedFilters = [], sanitizedSorts = []\<rparr>"]
    empty_state_resolution [where
      q = "\<lparr>isLoading = False, isError = False,
        data = Some \<lparr>items = ([] :: string list), total = 0\<rparr>,
        probeData = Some \<lparr>items = [''x''], total = 1\<rparr>\<rparr>"
      and uq = "\<lparr>users = None, isUsersLoading = False, isUsersError = False\<rparr>"
      and m = "\<lparr>items = [], total = 0\<rparr>" and p = "\<lparr>items = [''x''], total = 1\<rparr>"
      and date_operators = "[BEFORE, AFTER]"
      and fs = "\<lparr>filters = [], sorts = [], sanitizedFilters = [], sanitizedSorts = []\<rparr>"]
  by simp

subsection \<open>The probe is gated by the main result\<close>

lemma shouldProbe_Some: "shouldProbe (Some m) = (items m = [])"
  by (simp add: shouldProbe_def has_no_items_def)






subsection \<open>The probe request\<close>

text \<open>
  C10. The probe's query function calls the API with
  \<^verbatim>\<open>{limit: 1, offset: 0, filters: [], sort: []}\<close> whatever the page, the limit, the
  live and the committed criteria of the render are: in any two states of the
  view the probe passes the same arguments.
\<close>

theorem probe_arguments_fixed:
  "probe_queryFn api pg fs =
     api \<lparr>req_limit = 1, req_offset = 0, req_filters = [], req_sort = [], req_expand = None\<rparr>
   \<and> probe_queryFn api pg fs = probe_queryFn api pg' fs'"
  by (simp add: probe_queryFn_def)

text \<open>The main request, in contrast, carries the pagination and the committed criteria.\<close>

lemma main_request_follows_render:
  "fetchWalletTransactions (\<lambda>r. r) pg fs =
     \<lparr>req_limit = limit pg, req_offset = offset pg, req_filters = sanitizedFilters fs,
      req_sort = sanitizedSorts fs, req_expand = Some ''customer,created_by_user''\<rparr>"
  by (simp add: fetchWalletTransactions_def)

subsection \<open>The reset effect and the main query\<close>

text \<open>
  After \<open>render_until_stable\<close> the view is at rest: one more render changes
  nothing and calls no effect.
\<close>

lemma render_until_stable_at_rest:
  "fst (render_view (fst (render_until_stable v))) = fst (render_until_stable v)
   \<and> ResetCalled \<notin> set (snd (render_view (fst (render_until_stable v))))"
  by (cases v) (auto simp: render_until_stable_def render_view_def Let_def split: if_splits)

text \<open>
  What a change of the committed criteria does, event by event: the render
  that observes the change builds its main query, the effect calls
  \<^verbatim>\<open>reset()\<close>, and if the page was not 1 already a second render builds the
  main query again.
\<close>

lemma commit_criteria_trace:
  assumes "vs_effect_deps v
             = Some (sanitizedFilters (vs_criteria v), sanitizedSorts (vs_criteria v))"
    and "(f, s) \<noteq> (sanitizedFilters (vs_criteria v), sanitizedSorts (vs_criteria v))"
  shows "snd (commit_criteria f s v) =
     MainQuery
       \<lparr>qk_name = ''fetchAllWalletTransactions'', qk_probe = False,
        qk_page = ps_page (vs_pagination v), qk_filters = f, qk_sorts = s\<rparr>
       \<lparr>req_limit = ps_limit (vs_pagination v),
        req_offset = (ps_page (vs_pagination v) - 1) * ps_limit (vs_pagination v),
        req_filters = f, req_sort = s, req_expand = Some ''customer,created_by_user''\<rparr>
     # ResetCalled
     # (if ps_page (vs_pagination v) = 1 then []
        else [MainQuery
          \<lparr>qk_name = ''fetchAllWalletTransactions'', qk_probe = False,
           qk_page = 1, qk_filters = f, qk_sorts = s\<rparr>
          \<lparr>req_limit = ps_limit (vs_pagination v), req_offset = 0,
           req_filters = f, req_sort = s, req_expand = Some ''customer,created_by_user''\<rparr>])"
  using assms
  by (cases v; cases "vs_pagination v")
     (auto simp: commit_criteria_def render_until_stable_def render_view_def Let_def reset_def
      usePagination_def main_queryKey_def fetchWalletTransactions_def)

lemma commit_criteria_state:
  assumes "vs_effect_deps v
             = Some (sanitizedFilters (vs_criteria v), sanitizedSorts (vs_criteria v))"
    and "(f, s) \<noteq> (sanitizedFilters (vs_criteria v), sanitizedSorts (vs_criteria v))"
  shows "fst (commit_criteria f s v) =
     v\<lparr>vs_pagination := reset (vs_pagination v),
       vs_criteria := (vs_criteria v)\<lparr>sanitizedFilters := f, sanitizedSorts := s\<rparr>,
       vs_effect_deps := Some (f, s)\<rparr>"
  using assms
  by (cases v; cases "vs_pagination v")
     (auto simp: commit_criteria_def render_until_stable_def render_view_def Let_def reset_def
      usePagination_def main_queryKey_def fetchWalletTransactions_def)

text \<open>
  C4, as the view has it. When the committed filters or sorts change value,
  \<^verbatim>\<open>reset()\<close> is called exactly once for the change, by the effect that follows
  the render observing it. From then on the page is 1 and the limit is what it
  was, and the main query that the view builds after the reset carries page 1
  and offset 0 together with the new criteria.
\<close>

theorem reset_on_criteria_change:
  assumes "vs_effect_deps v
             = Some (sanitizedFilters (vs_criteria v), sanitizedSorts (vs_criteria v))"
    and "(f, s) \<noteq> (sanitizedFilters (vs_criteria v), sanitizedSorts (vs_criteria v))"
  shows "reset_count (snd (commit_criteria f s v)) = 1
    \<and> after_reset (snd (commit_criteria f s v)) =
        (if ps_page (vs_pagination v) = 1 then []
         else [MainQuery
           \<lparr>qk_name = ''fetchAllWalletTransactions'', qk_probe = False,
            qk_page = 1, qk_filters = f, qk_sorts = s\<rparr>
           \<lparr>req_limit = ps_limit (vs_pagination v), req_offset = 0,
            req_filters = f, req_sort = s,
            req_expand = Some ''customer,created_by_user''\<rparr>])
    \<and> ps_page (vs_pagination (fst (commit_criteria f s v))) = 1
    \<and> ps_limit (vs_pagination (fst (commit_criteria f s v))) = ps_limit (vs_pagination v)
    \<and> sanitizedFilters (vs_criteria (fst (commit_criteria f s v))) = f
    \<and> sanitizedSorts (vs_criteria (fst (commit_criteria f s v))) = s"
  by (simp add: commit_criteria_trace [OF assms] commit_criteria_state [OF assms]
      reset_count_def after_reset_def reset_def)

theorem reset_on_criteria_change_witness:
  "reset_count (snd (commit_criteria
      [\<lparr>fc_field = ''created_at'', fc_operator = AFTER, fc_value = StringValue ''2024-01-01''\<rparr>] []
      \<lparr>vs_pagination = \<lparr>ps_page = 3, ps_limit = 10\<rparr>,
       vs_criteria = \<lparr>filters = [], sorts = [], sanitizedFilters = [], sanitizedSorts = []\<rparr>,
       vs_effect_deps = Some ([], [])\<rparr>)) = 1
   \<and> after_reset (snd (commit_criteria
      [\<lparr>fc_field = ''created_at'', fc_operator = AFTER, fc_value = StringValue ''2024-01-01''\<rparr>] []
      \<lparr>vs_pagination = \<lparr>ps_page = 3, ps_limit = 10\<rparr>,
       vs_criteria = \<lparr>filters = [], sorts = [], sanitizedFilters = [], sanitizedSorts = []\<rparr>,
       vs_effect_deps = Some ([], [])\<rparr>)) =
     [MainQuery
        \<lparr>qk_name = ''fetchAllWalletTransactions'', qk_probe = False, qk_page = 1,
         qk_filters = [\<lparr>fc_field = ''created_at'', fc_operator = AFTER,
                        fc_value = StringValue ''2024-01-01''\<rparr>],
         qk_sorts = []\<rparr>
        \<lparr>req_limit = 10, req_offset = 0,
         req_filters = [\<lparr>fc_field = ''created_at'', fc_operator = AFTER,
                         fc_value = StringValue ''2024-01-01''\<rparr>],
         req_sort = [], req_expand = Some ''customer,created_by_user''\<rparr>]"
  using reset_on_criteria_change [of
      "\<lparr>vs_pagination = \<lparr>ps_page = 3, ps_limit = 10\<rparr>,
        vs_criteria = \<lparr>filters = [], sorts = [], sanitizedFilters = [], sanitizedSorts = []\<rparr>,
        vs_effect_deps = Some ([], [])\<rparr>"
      "[\<lparr>fc_field = ''created_at'', fc_operator = AFTER, fc_value = StringValue ''2024-01-01''\<rparr>]"
      "[]"]
  by simp

text \<open>
  The view on page 3 with limit 10: the committed filters change from none to
  one criterion. The render that observes the change builds a main query with
  the new criterion, page 3 and offset 20; \<^verbatim>\<open>reset()\<close> is called after that
  render, and only the next render builds the query with page 1 and offset 0.
\<close>

theorem stale_page_counterexample:
  "snd (commit_criteria
      [\<lparr>fc_field = ''created_at'', fc_operator = AFTER, fc_value = StringValue ''2024-01-01''\<rparr>] []
      \<lparr>vs_pagination = \<lparr>ps_page = 3, ps_limit = 10\<rparr>,
       vs_criteria = \<lparr>filters = [], sorts = [], sanitizedFilters = [], sanitizedSorts = []\<rparr>,
       vs_effect_deps = Some ([], [])\<rparr>) =
     [MainQuery
        \<lparr>qk_name = ''fetchAllWalletTransactions'', qk_probe = False, qk_page = 3,
         qk_filters = [\<lparr>fc_field = ''created_at'', fc_operator = AFTER,
                        fc_value = StringValue ''2024-01-01''\<rparr>],
         qk_sorts = []\<rparr>
        \<lparr>req_limit = 10, req_offset = 20,
         req_filters = [\<lparr>fc_field = ''created_at'', fc_operator = AFTER,
                         fc_value = StringValue ''2024-01-01''\<rparr>],
         req_sort = [], req_expand = Some ''customer,created_by_user''\<rparr>,
      ResetCalled,
      MainQuery
        \<lparr>qk_name = ''fetchAllWalletTransactions'', qk_probe = False, qk_page = 1,
         qk_filters = [\<lparr>fc_field = ''created_at'', fc_operator = AFTER,
                        fc_value = StringValue ''2024-01-01''\<rparr>],
         qk_sorts = []\<rparr>
        \<lparr>req_limit = 10, req_offset = 0,
         req_filters = [\<lparr>fc_field = ''created_at'', fc_operator = AFTER,
                         fc_value = StringValue ''2024-01-01''\<rparr>],
         req_sort = [], req_expand = Some ''customer,created_by_user''\<rparr>]"
  by (simp add: commit_criteria_def render_until_stable_def render_view_def Let_def reset_def
      usePagination_def main_queryKey_def fetchWalletTransactions_def)

subsection \<open>The filter fields follow the users query\<close>

text \<open>
  The view on a loaded, non-empty page of transactions. At first the users
  query has returned one user; after a refetch it returns two. Both renders show
  the list, and the filter fields handed to the query builder differ: the
  options of "Created By" have changed. The fields computed while the users are
  still loading differ from both: "Created By" is not among them.
\<close>

theorem filter_fields_change_counterexample:
  "resolved_state (WalletTransactionList [BEFORE, AFTER]
      \<lparr>users = Some [\<lparr>user_id = ''u1'', user_email = Some ''a@x.io'', user_name = None\<rparr>],
       isUsersLoading = False, isUsersError = False\<rparr>
      \<lparr>filters = [], sorts = [], sanitizedFilters = [], sanitizedSorts = []\<rparr>
      \<lparr>isLoading = False, isError = False,
       data = Some \<lparr>items = [''tx''], total = 1\<rparr>, probeData = None\<rparr>) = Populated
   \<and> resolved_state (WalletTransactionList [BEFORE, AFTER]
      \<lparr>users = Some [\<lparr>user_id = ''u1'', user_email = Some ''a@x.io'', user_name = None\<rparr>,
                     \<lparr>user_id = ''u2'', user_email = None, user_name = Some ''Bo''\<rparr>],
       isUsersLoading = False, isUsersError = False\<rparr>
      \<lparr>filters = [], sorts = [], sanitizedFilters = [], sanitizedSorts = []\<rparr>
      \<lparr>isLoading = False, isError = False,
       data = Some \<lparr>items = [''tx''], total = 1\<rparr>, probeData = None\<rparr>) = Populated
   \<and> filterOptions [BEFORE, AFTER]
      \<lparr>users = Some [\<lparr>user_id = ''u1'', user_email = Some ''a@x.io'', user_name = None\<rparr>],
       isUsersLoading = False, isUsersError = False\<rparr>
     \<noteq> filterOptions [BEFORE, AFTER]
      \<lparr>users = Some [\<lparr>user_id = ''u1'', user_email = Some ''a@x.io'', user_name = None\<rparr>,
                     \<lparr>user_id = ''u2'', user_email = None, user_name = Some ''Bo''\<rparr>],
       isUsersLoading = False, isUsersError = False\<rparr>
   \<and> filterOptions [BEFORE, AFTER]
      \<lparr>users = None, isUsersLoading = True, isUsersError = False\<rparr>
     \<noteq> filterOptions [BEFORE, AFTER]
      \<lparr>users = Some [\<lparr>user_id = ''u1'', user_email = Some ''a@x.io'', user_name = None\<rparr>],
       isUsersLoading = False, isUsersError = False\<rparr>"
  by (simp add: WalletTransactionList_def showEmptyPage_def has_no_items_def filterOptions_def
      userOptions_def created_by_field_def created_at_field_def)

text \<open>
  C9, as the view has it. The sort options are a constant of the module. The
  filter fields are computed in every render, whatever it shows, from the
  users query alone: "Created At" alone when the users query has failed or
  holds no user, otherwise "Created By" with one option per user (the value is
  the user's id, the label the e-mail, else the name, else the id) followed by
  "Created At". So two renders in which the users query holds the same users
  and the same error flag have the same filter fields, whatever the page, the
  criteria and the transactions are; and two renders have the same filter
  fields exactly when "Created By" is present in both or in neither and, where
  present, has the same options. A render that shows the list hands these
  fields and the constant sort options to the query builder.
\<close>

theorem filter_fields_follow_users_query:
  "(users uq = users uq' \<and> isUsersError uq = isUsersError uq' \<longrightarrow>
      filterOptions date_operators uq = filterOptions date_operators uq')
   \<and> (isUsersError uq \<or> users uq = None \<or> users uq = Some [] \<longrightarrow>
      filterOptions date_operators uq =
        [\<lparr>ff_field = ''created_at'', ff_label = ''Created At'', ff_fieldType = DATEPICKER,
          ff_operators = date_operators, ff_dataType = DATE, ff_options = None\<rparr>])
   \<and> (\<not> isUsersError uq \<and> users uq = Some us \<and> us \<noteq> [] \<longrightarrow>
      filterOptions date_operators uq =
        [\<lparr>ff_field = ''created_by'', ff_label = ''Created By'', ff_fieldType = MULTI_SELECT,
          ff_operators = [IS_ANY_OF, IS_NOT_ANY_OF], ff_dataType = ARRAY,
          ff_options = Some (map (\<lambda>u. \<lparr>opt_value = user_id u,
            opt_label = (case user_email u of
                Some e \<Rightarrow> if e \<noteq> [] then e
                  else (case user_name u of
                      Some n \<Rightarrow> if n \<noteq> [] then n else user_id u | None \<Rightarrow> user_id u)
              | None \<Rightarrow> (case user_name u of
                      Some n \<Rightarrow> if n \<noteq> [] then n else user_id u | None \<Rightarrow> user_id u))\<rparr>) us)\<rparr>,
         \<lparr>ff_field = ''created_at'', ff_label = ''Created At'', ff_fieldType = DATEPICKER,
          ff_operators = date_operators, ff_dataType = DATE, ff_options = None\<rparr>])
   \<and> (filterOptions date_operators uq = filterOptions date_operators uq' \<longleftrightarrow>
        (isUsersError uq \<or> users uq = None \<or> users uq = Some [])
          = (isUsersError uq' \<or> users uq' = None \<or> users uq' = Some [])
        \<and> (isUsersError uq \<or> users uq = None \<or> users uq = Some []
            \<or> userOptions uq = userOptions uq'))
   \<and> (WalletTransactionList date_operators uq fs q = ListView props \<longrightarrow>
        lv_filterOptions props = filterOptions date_operators uq
        \<and> lv_sortOptions props =
            [\<lparr>so_field = Some ''created_at'', so_label = ''Created At'',
              so_direction = Some DESC\<rparr>])"
proof -
  have same: "users uq = users uq' \<and> isUsersError uq = isUsersError uq' \<longrightarrow>
      filterOptions date_operators uq = filterOptions date_operators uq'"
    by (simp add: filterOptions_def userOptions_def)
  have without: "isUsersError uq \<or> users uq = None \<or> users uq = Some [] \<longrightarrow>
      filterOptions date_operators uq =
        [\<lparr>ff_field = ''created_at'', ff_label = ''Created At'', ff_fieldType = DATEPICKER,
          ff_operators = date_operators, ff_dataType = DATE, ff_options = None\<rparr>]"
    by (simp add: filterOptions_def created_at_field_def)
  have label: "\<And>u. or_else (user_email u) (or_else (user_name u) (user_id u)) =
      (case user_email u of
          Some e \<Rightarrow> if e \<noteq> [] then e
            else (case user_name u of
                Some n \<Rightarrow> if n \<noteq> [] then n else user_id u | None \<Rightarrow> user_id u)
        | None \<Rightarrow> (case user_name u of
                Some n \<Rightarrow> if n \<noteq> [] then n else user_id u | None \<Rightarrow> user_id u))"
    by (simp add: or_else_def split: option.splits)
  have with_users: "\<not> isUsersError uq \<and> users uq = Some us \<and> us \<noteq> [] \<longrightarrow>
      filterOptions date_operators uq =
        [\<lparr>ff_field = ''created_by'', ff_label = ''Created By'', ff_fieldType = MULTI_SELECT,
          ff_operators = [IS_ANY_OF, IS_NOT_ANY_OF], ff_dataType = ARRAY,
          ff_options = Some (map (\<lambda>u. \<lparr>opt_value = user_id u,
            opt_label = (case user_email u of
                Some e \<Rightarrow> if e \<noteq> [] then e
                  else (case user_name u of
                      Some n \<Rightarrow> if n \<noteq> [] then n else user_id u | None \<Rightarrow> user_id u)
              | None \<Rightarrow> (case user_name u of
                      Some n \<Rightarrow> if n \<noteq> [] then n else user_id u | None \<Rightarrow> user_id u))\<rparr>) us)\<rparr>,
         \<lparr>ff_field = ''created_at'', ff_label = ''Created At'', ff_fieldType = DATEPICKER,
          ff_operators = date_operators, ff_dataType = DATE, ff_options = None\<rparr>]"
    by (simp add: filterOptions_def userOptions_def created_by_field_def created_at_field_def
        label)
  have differ: "filterOptions date_operators uq = filterOptions date_operators uq' \<longleftrightarrow>
        (isUsersError uq \<or> users uq = None \<or> users uq = Some [])
          = (isUsersError uq' \<or> users uq' = None \<or> users uq' = Some [])
        \<and> (isUsersError uq \<or> users uq = None \<or> users uq = Some []
            \<or> userOptions uq = userOptions uq')"
    by (auto simp: filterOptions_def created_by_field_def created_at_field_def)
  have shown: "WalletTransactionList date_operators uq fs q = ListView props \<longrightarrow>
        lv_filterOptions props = filterOptions date_operators uq
        \<and> lv_sortOptions props =
            [\<lparr>so_field = Some ''created_at'', so_label = ''Created At'',
              so_direction = Some DESC\<rparr>]"
    by (auto simp: WalletTransactionList_def sortingOptions_def split: if_splits)
  from same without with_users differ shown show ?thesis by blast
qed

text \<open>
  Two renders with the same three users: one shows page 1 of a loaded list, the
  other comes while the users are being fetched again. Both compute the same
  filter fields, with one option per user, and the list gets them together
  with the constant sort options.
\<close>

theorem filter_fields_follow_users_query_witness:
  "filterOptions [BEFORE, AFTER]
      \<lparr>users = Some [\<lparr>user_id = ''u1'', user_email = Some ''a@x.io'', user_name = None\<rparr>,
                     \<lparr>user_id = ''u2'', user_email = None, user_name = Some ''Bo''\<rparr>,
                     \<lparr>user_id = ''u3'', user_email = Some [], user_name = None\<rparr>],
       isUsersLoading = False, isUsersError = False\<rparr> =
     [\<lparr>ff_field = ''created_by'', ff_label = ''Created By'', ff_fieldType = MULTI_SELECT,
       ff_operators = [IS_ANY_OF, IS_NOT_ANY_OF], ff_dataType = ARRAY,
       ff_options = Some [\<lparr>opt_value = ''u1'', opt_label = ''a@x.io''\<rparr>,
                          \<lparr>opt_value = ''u2'', opt_label = ''Bo''\<rparr>,
                          \<lparr>opt_value = ''u3'', opt_label = ''u3''\<rparr>]\<rparr>,
      \<lparr>ff_field = ''created_at'', ff_label = ''Created At'', ff_fieldType = DATEPICKER,
       ff_operators = [BEFORE, AFTER], ff_dataType = DATE, ff_options = None\<rparr>]
   \<and> filterOptions [BEFORE, AFTER]
      \<lparr>users = Some [\<lparr>user_id = ''u1'', user_email = Some ''a@x.io'', user_name = None\<rparr>,
                     \<lparr>user_id = ''u2'', user_email = None, user_name = Some ''Bo''\<rparr>,
                     \<lparr>user_id = ''u3'', user_email = Some [], user_name = None\<rparr>],
       isUsersLoading = False, isUsersError = False\<rparr> =
     filterOptions [BEFORE, AFTER]
      \<lparr>users = Some [\<lparr>user_id = ''u1'', user_email = Some ''a@x.io'', user_name = None\<rparr>,
                     \<lparr>user_id = ''u2'', user_email = None, user_name = Some ''Bo''\<rparr>,
                     \<lparr>user_id = ''u3'', user_email = Some [], user_name = None\<rparr>],
       isUsersLoading = True, isUsersError = False\<rparr>
   \<and> lv_sortOptions
       \<lparr>lv_filterOptions = filterOptions [BEFORE, AFTER]
          \<lparr>users = Some [\<lparr>user_id = ''u1'', user_email = Some ''a@x.io'', user_name = None\<rparr>,
                         \<lparr>user_id = ''u2'', user_email = None, user_name = Some ''Bo''\<rparr>,
                         \<lparr>user_id = ''u3'', user_email = Some [], user_name = None\<rparr>],
           isUsersLoading = False, isUsersError = False\<rparr>,
        lv_filters = [], lv_sortOptions = sortingOptions, lv_selectedSorts = [],
        lv_data = [''tx''],
        lv_users = [\<lparr>user_id = ''u1'', user_email = Some ''a@x.io'', user_name = None\<rparr>,
                    \<lparr>user_id = ''u2'', user_email = None, user_name = Some ''Bo''\<rparr>,
                    \<lparr>user_id = ''u3'', user_email = Some [], user_name = None\<rparr>],
        lv_totalItems = 1\<rparr> =
     [\<lparr>so_field = Some ''created_at'', so_label = ''Created At'', so_direction = Some DESC\<rparr>]"
  (is "?explicit \<and> ?same \<and> ?shown")
proof -
  note t = filter_fields_follow_users_query [where
      uq = "\<lparr>users = Some [\<lparr>user_id = ''u1'', user_email = Some ''a@x.io'', user_name = None\<rparr>,
                     \<lparr>user_id = ''u2'', user_email = None, user_name = Some ''Bo''\<rparr>,
                     \<lparr>user_id = ''u3'', user_email = Some [], user_name = None\<rparr>],
        isUsersLoading = False, isUsersError = False\<rparr>"
      and uq' = "\<lparr>users = Some [\<lparr>user_id = ''u1'', user_email = Some ''a@x.io'', user_name = None\<rparr>,
                     \<lparr>user_id = ''u2'', user_email = None, user_name = Some ''Bo''\<rparr>,
                     \<lparr>user_id = ''u3'', user_email = Some [], user_name = None\<rparr>],
        isUsersLoading = True, isUsersError = False\<rparr>"
      and us = "[\<lparr>user_id = ''u1'', user_email = Some ''a@x.io'', user_name = None\<rparr>,
                 \<lparr>user_id = ''u2'', user_email = None, user_name = Some ''Bo''\<rparr>,
                 \<lparr>user_id = ''u3'', user_email = Some [], user_name = None\<rparr>]"
      and date_operators = "[BEFORE, AFTER]"
      and fs = "\<lparr>filters = [], sorts = [], sanitizedFilters = [], sanitizedSorts = []\<rparr>"
      and q = "\<lparr>isLoading = False, isError = False,
        data = Some \<lparr>items = [''tx''], total = 1\<rparr>, probeData = None\<rparr>"
      and props = "\<lparr>lv_filterOptions = filterOptions [BEFORE, AFTER]
          \<lparr>users = Some [\<lparr>user_id = ''u1'', user_email = Some ''a@x.io'', user_name = None\<rparr>,
                         \<lparr>user_id = ''u2'', user_email = None, user_name = Some ''Bo''\<rparr>,
                         \<lparr>user_id = ''u3'', user_email = Some [], user_name = None\<rparr>],
           isUsersLoading = False, isUsersError = False\<rparr>,
        lv_filters = [], lv_sortOptions = sortingOptions, lv_selectedSorts = [],
        lv_data = [''tx''],
        lv_users = [\<lparr>user_id = ''u1'', user_email = Some ''a@x.io'', user_name = None\<rparr>,
                    \<lparr>user_id = ''u2'', user_email = None, user_name = Some ''Bo''\<rparr>,
                    \<lparr>user_id = ''u3'', user_email = Some [], user_name = None\<rparr>],
        lv_totalItems = 1\<rparr>"]
  have same: ?same
    by (rule t [THEN conjunct1, THEN mp]) simp
  have explicit: ?explicit
    using t [THEN conjunct2, THEN conjunct2, THEN conjunct1] by simp
  have shown: ?shown
    using t [THEN conjunct2, THEN conjunct2, THEN conjunct2, THEN conjunct2]
    by (simp add: WalletTransactionList_def showEmptyPage_def has_no_items_def)
  show ?thesis
    by (rule conjI [OF explicit conjI [OF same shown]])
qed

subsection \<open>The debounced commit\<close>

lemma setFilters_state:
  "setFilters ms v c = c\<lparr>db_live := v, db_timers := [db_now c + ms]\<rparr>"
  by (simp add: setFilters_def start_timer_def cancel_timers_def)

lemma elapse_pending:
  "db_timers c = [t] \<Longrightarrow> db_now c + d < t \<Longrightarrow>
   elapse sanitize d c = c\<lparr>db_now := db_now c + d\<rparr>"
  by (simp add: elapse_def Let_def)

lemma elapse_due:
  "db_timers c = [t] \<Longrightarrow> t \<le> db_now c + d \<Longrightarrow>
   elapse sanitize d c =
     c\<lparr>db_committed := sanitize (db_live c),
       db_published := db_published c @ [sanitize (db_live c)],
       db_timers := [], db_now := db_now c + d\<rparr>"
  by (simp add: elapse_def Let_def timer_fire_def)

text \<open>
  During a burst nothing is published: after its last call the live value is
  the last one set and one timer is pending, \<open>ms\<close> after that call.
\<close>

lemma burst_pending:
  "\<forall>(d, w) \<in> set rest. d < ms \<Longrightarrow>
   run_edits sanitize ms (burst v rest) c =
     c\<lparr>db_live := last (v # map snd rest),
       db_timers := [db_now c + sum_list (map fst rest) + ms],
       db_now := db_now c + sum_list (map fst rest)\<rparr>"
proof (induction rest arbitrary: v c)
  case Nil
  then show ?case by (simp add: run_edits_def setFilters_state)
next
  case (Cons p rest)
  obtain d w where p: "p = (d, w)" by (cases p)
  from Cons.prems p have d: "d < ms" and rest: "\<forall>(d, w) \<in> set rest. d < ms" by auto
  let ?c1 = "elapse sanitize d (setFilters ms v c)"
  have c1: "?c1 = c\<lparr>db_live := v, db_timers := [db_now c + ms], db_now := db_now c + d\<rparr>"
    using d by (simp add: setFilters_state elapse_pending)
  have "run_edits sanitize ms (burst v (p # rest)) c = run_edits sanitize ms (burst w rest) ?c1"
    by (simp add: p run_edits_def)
  also have "\<dots> = ?c1\<lparr>db_live := last (w # map snd rest),
       db_timers := [db_now ?c1 + sum_list (map fst rest) + ms],
       db_now := db_now ?c1 + sum_list (map fst rest)\<rparr>"
    by (rule Cons.IH [OF rest])
  finally show ?case by (simp add: c1 p add.assoc)
qed

text \<open>
  C5. Calls of \<^verbatim>\<open>setFilters\<close> that each come less than \<open>ms\<close> milliseconds
  after the one before, followed by a quiet time of at least \<open>ms\<close>: every call
  sets the live value at once and leaves exactly one timer pending, whatever was
  pending before; nothing is published during the calls; after the quiet time
  exactly one committed value has been published, the sanitized value of the
  last call.
\<close>

theorem debounced_commit:
  assumes "\<forall>(d, w) \<in> set rest. d < ms" and "ms \<le> quiet"
  shows "db_published (run_edits sanitize ms (burst v rest @ [Elapse quiet]) c)
           = db_published c @ [sanitize (last (v # map snd rest))]
    \<and> db_committed (run_edits sanitize ms (burst v rest @ [Elapse quiet]) c)
           = sanitize (last (v # map snd rest))
    \<and> db_timers (run_edits sanitize ms (burst v rest @ [Elapse quiet]) c) = []
    \<and> db_published (run_edits sanitize ms (burst v rest) c) = db_published c
    \<and> db_live (run_edits sanitize ms (burst v rest) c) = last (v # map snd rest)
    \<and> db_live (setFilters ms u c) = u
    \<and> db_timers (setFilters ms u c) = [db_now c + ms]"
proof -
  let ?c1 = "run_edits sanitize ms (burst v rest) c"
  have split: "run_edits sanitize ms (burst v rest @ [Elapse quiet]) c = elapse sanitize quiet ?c1"
    by (simp add: run_edits_def)
  have c1: "?c1 = c\<lparr>db_live := last (v # map snd rest),
       db_timers := [db_now c + sum_list (map fst rest) + ms],
       db_now := db_now c + sum_list (map fst rest)\<rparr>"
    by (rule burst_pending [OF assms(1)])
  have fired: "elapse sanitize quiet ?c1 =
      ?c1\<lparr>db_committed := sanitize (db_live ?c1),
          db_published := db_published ?c1 @ [sanitize (db_live ?c1)],
          db_timers := [], db_now := db_now ?c1 + quiet\<rparr>"
    using assms(2) by (intro elapse_due [where t = "db_now c + sum_list (map fst rest) + ms"])
      (simp_all add: c1)
  show ?thesis
    unfolding split fired by (simp add: c1 setFilters_state)
qed

text \<open>
  Scenario D of the specification with the options of the view: three calls
  within 100 ms of each other, a debounce time of 500 ms, one committed value
  after the one of the mount.
\<close>

theorem debounced_commit_witness:
  "db_published
     (run_edits (filter (\<lambda>c. fc_value c \<noteq> Undefined))
        (debounce_of (debounceTime filterSortingOptions))
        (burst [\<lparr>fc_field = ''created_at'', fc_operator = AFTER, fc_value = Undefined\<rparr>]
           [(40, [\<lparr>fc_field = ''created_at'', fc_operator = AFTER, fc_value = StringValue ''2024''\<rparr>]),
            (50, [\<lparr>fc_field = ''created_at'', fc_operator = BEFORE, fc_value = StringValue ''2025''\<rparr>])]
         @ [Elapse 500])
        (mount (filter (\<lambda>c. fc_value c \<noteq> Undefined)) (initialFilters filterSortingOptions)))
   = [[], [\<lparr>fc_field = ''created_at'', fc_operator = BEFORE, fc_value = StringValue ''2025''\<rparr>]]"
  using debounced_commit [of
      "[(40, [\<lparr>fc_field = ''created_at'', fc_operator = AFTER, fc_value = StringValue ''2024''\<rparr>]),
        (50, [\<lparr>fc_field = ''created_at'', fc_operator = BEFORE, fc_value = StringValue ''2025''\<rparr>])]"
      500 500 "filter (\<lambda>c. fc_value c \<noteq> Undefined)"
      "[\<lparr>fc_field = ''created_at'', fc_operator = AFTER, fc_value = Undefined\<rparr>]"
      "mount (filter (\<lambda>c. fc_value c \<noteq> Undefined)) []" "[]"]
  by (simp add: debounce_of_def filterSortingOptions_def mount_def)


end
